theory Spec2Isabelle
  imports Main
begin

section \<open>JavaScript values\<close>

text \<open>
  The values \<^verbatim>\<open>src/module.js\<close> tests for truthiness: option values, the argument of
  \<^verbatim>\<open>error(err)\<close>, rejection reasons and thrown exceptions. Numbers are integers plus
  \<^verbatim>\<open>NaN\<close>; objects and functions are references; \<open>JError\<close> is an \<^verbatim>\<open>Error\<close> object
  with its name.
\<close>

datatype jsval =
    JUndefined
  | JNull
  | JBool bool
  | JNum int
  | JNaN
  | JStr string
  | JArr "jsval list"
  | JObj nat
  | JFun nat
  | JError string

text \<open>JavaScript's ToBoolean, which \<^verbatim>\<open>!x\<close> and \<^verbatim>\<open>x || y\<close> apply.\<close>

fun truthy :: "jsval \<Rightarrow> bool" where
  "truthy JUndefined = False"
| "truthy JNull = False"
| "truthy (JBool b) = b"
| "truthy (JNum n) = (n \<noteq> 0)"
| "truthy JNaN = False"
| "truthy (JStr s) = (s \<noteq> [])"
| "truthy (JArr xs) = True"
| "truthy (JObj r) = True"
| "truthy (JFun f) = True"
| "truthy (JError n) = True"

text \<open>The exception of a property access on \<^verbatim>\<open>null\<close> or \<^verbatim>\<open>undefined\<close>.\<close>

definition TypeError :: jsval where
  "TypeError = JError ''TypeError''"

text \<open>The value of \<^verbatim>\<open>new Error()\<close>.\<close>

definition new_Error :: jsval where
  "new_Error = JError ''Error''"

section \<open>The constructor's options: defaults written into the caller's object\<close>

text \<open>
  An object is its own properties; the store maps references to objects, with the next
  unused reference. The caller of \<^verbatim>\<open>new Module(el, options)\<close> passes a reference to an
  object of the store, or nothing (\<open>None\<close>: \<^verbatim>\<open>undefined\<close> or \<^verbatim>\<open>null\<close>).
\<close>

type_synonym object = "string \<rightharpoonup> jsval"

record store =
  objs :: "nat \<Rightarrow> object"
  fresh :: nat

text \<open>Reading a property: \<^verbatim>\<open>options[name]\<close> is \<^verbatim>\<open>undefined\<close> when the property is absent.\<close>

definition get_prop :: "object \<Rightarrow> string \<Rightarrow> jsval" where
  "get_prop ob name = (case ob name of None \<Rightarrow> JUndefined | Some v \<Rightarrow> v)"

text \<open>The function objects \<^verbatim>\<open>function (){}\<close> of the defaults.\<close>

definition noop :: jsval where
  "noop = JFun 0"

text \<open>\<^verbatim>\<open>defaultOptions\<close> (lines 96-111), in the order \<^verbatim>\<open>for ... in\<close> enumerates it.\<close>

definition defaultOptions :: "(string \<times> jsval) list" where
  "defaultOptions =
    [(''loadedClass'', JStr ''module-loaded''),
     (''activeClass'', JStr ''module-active''),
     (''disabledClass'', JStr ''module-disabled''),
     (''errorClass'', JStr ''module-error''),
     (''styles'', JArr []),
     (''template'', JStr ''''),
     (''data'', JNull),
     (''requestOptions'', JNull),
     (''onLoad'', noop),
     (''onShow'', noop),
     (''onHide'', noop),
     (''onEnable'', noop),
     (''onDisable'', noop),
     (''onError'', noop)]"

text \<open>
  The loop of lines 115-121 over the entries of \<^verbatim>\<open>defaultOptions\<close>:
  \<^verbatim>\<open>if (!options[name]) { options[name] = defaultOptions[name]; }\<close>.
\<close>

fun add_defaults :: "(string \<times> jsval) list \<Rightarrow> object \<Rightarrow> object" where
  "add_defaults [] ob = ob"
| "add_defaults ((name, d) # rest) ob =
     add_defaults rest (if \<not> truthy (get_prop ob name) then ob(name \<mapsto> d) else ob)"

text \<open>
  Lines 88 and 96-123 of the constructor: \<^verbatim>\<open>options = options || {}\<close> allocates an empty
  object only when no object was passed; the loop then writes into that object, and
  \<^verbatim>\<open>this.options = options\<close> keeps the reference, which is the second component of the result.
\<close>

definition constructor_options :: "store \<Rightarrow> nat option \<Rightarrow> store \<times> nat" where
  "constructor_options h arg =
     (let (h1, r) =
            (case arg of
               None \<Rightarrow> (h\<lparr>objs := (objs h)(fresh h := Map.empty), fresh := Suc (fresh h)\<rparr>, fresh h)
             | Some a \<Rightarrow> (h, a))
      in (h1\<lparr>objs := (objs h1)(r := add_defaults defaultOptions (objs h1 r))\<rparr>, r))"

section \<open>The display tree\<close>

text \<open>
  A node as the code reads it: whether \<^verbatim>\<open>typeof node.className === 'string'\<close> (true of
  HTML elements, false of the document and of fragments), the tokens of its
  \<^verbatim>\<open>classList\<close>, its child nodes (handles of the nodes a template produces) and its
  \<^verbatim>\<open>parentNode\<close>. The chain of ancestors is finite and ends at a node with no parent.
\<close>

type_synonym node_id = nat

datatype element = Element
  (className_is_string: bool)
  (classList: "string list")
  (childNodes: "node_id list")
  (parentNode: "element option")

definition classList_contains :: "string \<Rightarrow> element \<Rightarrow> bool" where
  "classList_contains c x = (c \<in> set (classList x))"

definition classList_add :: "string \<Rightarrow> element \<Rightarrow> element" where
  "classList_add c x =
     Element (className_is_string x)
       (if c \<in> set (classList x) then classList x else classList x @ [c])
       (childNodes x) (parentNode x)"

definition classList_remove :: "string \<Rightarrow> element \<Rightarrow> element" where
  "classList_remove c x =
     Element (className_is_string x) (removeAll c (classList x)) (childNodes x) (parentNode x)"

text \<open>
  \<^verbatim>\<open>el.appendChild(frag)\<close> moves the nodes of the fragment to the end of the children;
  \<^verbatim>\<open>el.contains(n)\<close> and \<^verbatim>\<open>el.removeChild(n)\<close> on the nodes the module mounted.
\<close>

definition appendChild :: "node_id list \<Rightarrow> element \<Rightarrow> element" where
  "appendChild frag x =
     Element (className_is_string x) (classList x)
       (filter (\<lambda>n. n \<notin> set frag) (childNodes x) @ frag) (parentNode x)"

definition contains :: "element \<Rightarrow> node_id \<Rightarrow> bool" where
  "contains x n = (n \<in> set (childNodes x))"

definition removeChild :: "node_id \<Rightarrow> element \<Rightarrow> element" where
  "removeChild n x =
     Element (className_is_string x) (classList x) (remove1 n (childNodes x)) (parentNode x)"

subsection \<open>traverseEachParent (lines 11-22)\<close>

text \<open>
  The callback is a closure over the caller's variables: it takes them as the state
  \<open>'s\<close> and returns its result with the new state. The loop runs while the node is not
  null and has a string \<^verbatim>\<open>className\<close>, and breaks when the callback's result is neither
  \<^verbatim>\<open>undefined\<close> nor truthy.
\<close>

fun traverseEachParent ::
  "(element \<Rightarrow> 's \<Rightarrow> jsval \<times> 's) \<Rightarrow> element option \<Rightarrow> 's \<Rightarrow> 's" where
  "traverseEachParent callback None s = s"
| "traverseEachParent callback (Some (Element is_str cl ch par)) s =
     (if is_str then
        (case callback (Element is_str cl ch par) s of
           (predicate, s') \<Rightarrow>
             if predicate \<noteq> JUndefined \<and> \<not> truthy predicate then s'
             else traverseEachParent callback par s')
      else s)"

section \<open>The module\<close>

subsection \<open>Collaborators, promises and events\<close>

text \<open>
  A promise is known by how it settles; a call either returns or throws. An exception
  thrown inside a \<^verbatim>\<open>then\<close> or \<^verbatim>\<open>catch\<close> callback rejects the promise of that callback.
\<close>

datatype promise = Resolved jsval | Rejected jsval

datatype 'a completion = Return 'a | Throw jsval

text \<open>
  The imported collaborators, by the outcome of each call: \<^verbatim>\<open>ResourceManager.loadCss\<close>,
  \<^verbatim>\<open>ResourceManager.fetchData\<close>, \<^verbatim>\<open>ResourceManager.loadTemplate\<close> (on success, the child
  nodes it put into the container), \<^verbatim>\<open>document.importNode\<close> (the clones of a template's
  content) and \<^verbatim>\<open>waitForElementTransition\<close>.
\<close>

record env =
  ResourceManager_loadCss :: "jsval \<Rightarrow> promise"
  ResourceManager_fetchData :: "string \<Rightarrow> jsval \<Rightarrow> promise"
  ResourceManager_loadTemplate :: "string \<Rightarrow> jsval + node_id list"
  document_importNode :: "node_id list \<Rightarrow> node_id list"
  waitForElementTransition :: "element option \<Rightarrow> promise"

text \<open>
  What a run does beyond changing the module, in order: the calls of \<^verbatim>\<open>console.error\<close>,
  of the methods \<^verbatim>\<open>getStyles\<close>, \<^verbatim>\<open>fetchData\<close> and \<^verbatim>\<open>getTemplate\<close>, of
  \<^verbatim>\<open>this.el.appendChild\<close>, of the option callbacks and of \<^verbatim>\<open>waitForTransition\<close>;
  \<open>Child key ev\<close> is an event of the sub-module stored under \<open>key\<close>.
\<close>

datatype event =
    ConsoleError
  | GetStyles jsval
  | FetchData jsval jsval
  | GetTemplate jsval
  | AppendChild "node_id list"
  | OnLoad
  | OnShow
  | OnHide
  | OnEnable
  | OnDisable
  | OnError jsval
  | WaitForTransition
  | Child string event

subsection \<open>State\<close>

text \<open>
  The options as the methods use them once the defaults are in place: the four class
  names are strings, \<open>template\<close> is one of the cases \<^verbatim>\<open>getTemplate\<close> tells apart, and a
  callback is known by whether it returns (\<open>None\<close>) or throws (\<open>Some e\<close>); callbacks do
  not write to the module.
\<close>

datatype template =
    NoTemplate
  | HTMLTemplateElement "node_id list"
  | HTMLElement node_id
  | TemplateUrl string

record module_options =
  loadedClass :: string
  activeClass :: string
  disabledClass :: string
  errorClass :: string
  styles :: jsval
  template :: template
  data :: jsval
  requestOptions :: jsval
  onLoad :: "jsval option"
  onShow :: "jsval option"
  onHide :: "jsval option"
  onEnable :: "jsval option"
  onDisable :: "jsval option"
  onError :: "jsval \<Rightarrow> jsval option"

datatype load_status = NotLoaded | Loading | Loaded

text \<open>
  The fields of \<^verbatim>\<open>this\<close>. The constructor never assigns \<^verbatim>\<open>disabled\<close> and \<^verbatim>\<open>errored\<close>:
  they are \<^verbatim>\<open>undefined\<close> (\<open>None\<close>) until a method writes them. \<^verbatim>\<open>_origDisabled\<close> and
  \<^verbatim>\<open>_origError\<close> are only tested for truthiness, so \<^verbatim>\<open>undefined\<close> is \<open>False\<close>. The
  element is borrowed: \<open>None\<close> is a module constructed without one. Sub-modules are
  kept in the order \<^verbatim>\<open>for ... in\<close> enumerates their keys; each is a module of its own, with
  its own element.
\<close>

record mstate =
  el :: "element option"
  options :: module_options
  active :: bool
  loaded :: bool
  disabled :: "bool option"
  errored :: "bool option"
  loadStatus :: load_status
  elChildren :: "node_id list"
  origDisabled :: bool
  origError :: bool

datatype module = Module (st: mstate) (subModules: "(string \<times> module) list")

subsection \<open>waitForTransition, enable, disable, show, hide (lines 273-324, 375-377)\<close>

definition waitForTransition :: "env \<Rightarrow> mstate \<Rightarrow> promise" where
  "waitForTransition env s = waitForElementTransition env (el s)"

fun enable :: "env \<Rightarrow> module \<Rightarrow> promise completion \<times> module \<times> event list" where
  "enable env (Module s subs) =
     (let s1 = (case el s of
                  Some x \<Rightarrow> s\<lparr>el := Some (classList_remove (disabledClass (options s)) x)\<rparr>
                | None \<Rightarrow> s);
          s2 = s1\<lparr>disabled := Some False\<rparr>
      in case onEnable (options s2) of
           Some t \<Rightarrow> (Throw t, Module s2 subs, [OnEnable])
         | None \<Rightarrow> (Return (waitForTransition env s2), Module s2 subs, [OnEnable, WaitForTransition]))"

fun disable :: "env \<Rightarrow> module \<Rightarrow> promise completion \<times> module \<times> event list" where
  "disable env (Module s subs) =
     (let s1 = (case el s of
                  Some x \<Rightarrow> s\<lparr>el := Some (classList_add (disabledClass (options s)) x)\<rparr>
                | None \<Rightarrow> s);
          s2 = s1\<lparr>disabled := Some True\<rparr>
      in case onDisable (options s2) of
           Some t \<Rightarrow> (Throw t, Module s2 subs, [OnDisable])
         | None \<Rightarrow> (Return (waitForTransition env s2), Module s2 subs, [OnDisable, WaitForTransition]))"

fun show_module :: "env \<Rightarrow> module \<Rightarrow> promise completion \<times> module \<times> event list" where
  "show_module env (Module s subs) =
     (let s1 = (case el s of
                  Some x \<Rightarrow> s\<lparr>el := Some (classList_add (activeClass (options s)) x)\<rparr>
                | None \<Rightarrow> s);
          s2 = s1\<lparr>active := True\<rparr>
      in case onShow (options s2) of
           Some t \<Rightarrow> (Throw t, Module s2 subs, [OnShow])
         | None \<Rightarrow> (Return (waitForTransition env s2), Module s2 subs, [OnShow, WaitForTransition]))"

fun hide :: "env \<Rightarrow> module \<Rightarrow> promise completion \<times> module \<times> event list" where
  "hide env (Module s subs) =
     (let s1 = (case el s of
                  Some x \<Rightarrow> s\<lparr>el := Some (classList_remove (activeClass (options s)) x)\<rparr>
                | None \<Rightarrow> s);
          s2 = s1\<lparr>active := False\<rparr>
      in case onHide (options s2) of
           Some t \<Rightarrow> (Throw t, Module s2 subs, [OnHide])
         | None \<Rightarrow> (Return (waitForTransition env s2), Module s2 subs, [OnHide, WaitForTransition]))"

subsection \<open>error (lines 254-267)\<close>

text \<open>
  \<^verbatim>\<open>this.el.classList\<close> is read with no test of \<^verbatim>\<open>this.el\<close>: without an element the
  method throws before it writes anything. The returned promise resolves with the
  error object once the transition has settled.
\<close>

fun error :: "env \<Rightarrow> jsval \<Rightarrow> module \<Rightarrow> promise completion \<times> module \<times> event list" where
  "error env err (Module s subs) =
     (let e = (if truthy err then err else new_Error)
      in case el s of
           None \<Rightarrow> (Throw TypeError, Module s subs, [])
         | Some x \<Rightarrow>
            (let s1 = s\<lparr>el := Some (classList_add (errorClass (options s)) x),
                        errored := Some True, loaded := False, loadStatus := NotLoaded\<rparr>
             in case onError (options s1) e of
                  Some t \<Rightarrow> (Throw t, Module s1 subs, [OnError e])
                | None \<Rightarrow>
                   (Return (case waitForTransition env s1 of
                              Resolved v \<Rightarrow> Resolved e
                            | Rejected r \<Rightarrow> Rejected r),
                    Module s1 subs, [OnError e, WaitForTransition])))"

subsection \<open>fetchData, getStyles, getTemplate (lines 192-236)\<close>

definition fetchData :: "env \<Rightarrow> jsval \<Rightarrow> jsval \<Rightarrow> promise" where
  "fetchData env url opts =
     (case url of
        JStr u \<Rightarrow> ResourceManager_fetchData env u opts
      | v \<Rightarrow> Resolved v)"

definition getStyles :: "env \<Rightarrow> jsval \<Rightarrow> promise" where
  "getStyles env cssUrl = ResourceManager_loadCss env cssUrl"

text \<open>
  The promise of \<^verbatim>\<open>getTemplate\<close>: rejected (\<open>Inl\<close>), or resolved with \<^verbatim>\<open>undefined\<close>
  (\<open>Inr None\<close>) or with a live list of child nodes.
\<close>

definition getTemplate :: "env \<Rightarrow> mstate \<Rightarrow> jsval + node_id list option" where
  "getTemplate env s =
     (case template (options s) of
        NoTemplate \<Rightarrow> Inr None
      | HTMLTemplateElement content \<Rightarrow> Inr (Some (document_importNode env content))
      | HTMLElement n \<Rightarrow> Inr (Some [n])
      | TemplateUrl t \<Rightarrow>
         (case ResourceManager_loadTemplate env t of
            Inl e \<Rightarrow> Inl e
          | Inr nodes \<Rightarrow> Inr (Some nodes)))"

subsection \<open>load (lines 139-184)\<close>

text \<open>
  The loop of lines 158-164: the list is live, so appending its first node to the
  fragment removes it from the list.
\<close>

fun mount_loop ::
  "node_id list \<Rightarrow> node_id list \<times> node_id list \<Rightarrow> node_id list \<times> node_id list" where
  "mount_loop [] (children, frag) = (children, frag)"
| "mount_loop (node # nodes) (children, frag) =
     mount_loop nodes (children @ [node], frag @ [node])"

text \<open>The innermost callback (lines 154-172), given what \<^verbatim>\<open>getTemplate\<close> resolved with.\<close>

definition load_nodes ::
  "node_id list option \<Rightarrow> mstate \<Rightarrow> unit completion \<times> mstate \<times> event list" where
  "load_nodes r s =
     (let nodes = (case r of None \<Rightarrow> [] | Some ns \<Rightarrow> ns);
          (children, frag) = mount_loop nodes (elChildren s, []);
          s1 = s\<lparr>elChildren := children\<rparr>
      in case el s1 of
           None \<Rightarrow> (Throw TypeError, s1, [])
         | Some x \<Rightarrow>
            (let s2 = s1\<lparr>el := Some (appendChild frag x), loaded := True, loadStatus := Loaded\<rparr>;
                 s3 = (case el s2 of
                         Some y \<Rightarrow> s2\<lparr>el := Some (classList_add (loadedClass (options s2)) y)\<rparr>
                       | None \<Rightarrow> s2)
             in case onLoad (options s3) of
                  Some t \<Rightarrow> (Throw t, s3, [AppendChild frag, OnLoad])
                | None \<Rightarrow> (Return (), s3, [AppendChild frag, OnLoad])))"

text \<open>The chain of \<^verbatim>\<open>then\<close> callbacks that runs once every sub-module has loaded (lines 151-175).\<close>

definition load_then :: "env \<Rightarrow> mstate \<Rightarrow> promise \<times> mstate \<times> event list" where
  "load_then env s =
     (let o1 = options s;
          tr1 = [GetStyles (styles o1)]
      in case getStyles env (styles o1) of
           Rejected e \<Rightarrow> (Rejected e, s, tr1)
         | Resolved u \<Rightarrow>
            (let tr2 = tr1 @ [FetchData (data o1) (requestOptions o1)]
             in case fetchData env (data o1) (requestOptions o1) of
                  Rejected e \<Rightarrow> (Rejected e, s, tr2)
                | Resolved d \<Rightarrow>
                   (let tr3 = tr2 @ [GetTemplate d]
                    in case getTemplate env s of
                         Inl e \<Rightarrow> (Rejected e, s, tr3)
                       | Inr r \<Rightarrow>
                          (case load_nodes r s of
                             (Throw t, s', tr) \<Rightarrow> (Rejected t, s', tr3 @ tr)
                           | (Return v, s', tr) \<Rightarrow> (Resolved JUndefined, s', tr3 @ tr)))))"

text \<open>
  The \<^verbatim>\<open>catch\<close> callback (lines 176-180): \<^verbatim>\<open>this.error(e); throw e;\<close>. The promise of
  \<^verbatim>\<open>error\<close> is dropped; an exception of \<^verbatim>\<open>error\<close> replaces \<open>e\<close>.
\<close>

definition load_catch :: "env \<Rightarrow> jsval \<Rightarrow> module \<Rightarrow> promise \<times> module \<times> event list" where
  "load_catch env e m =
     (case error env e m of
        (Throw t, m', tr) \<Rightarrow> (Rejected t, m', tr)
      | (Return p, m', tr) \<Rightarrow> (Rejected e, m', tr))"

text \<open>
  \<^verbatim>\<open>Promise.all\<close> over the promises of the sub-modules: resolved when all are, rejected
  with the reason of a rejected one otherwise. Which rejection settles first is a
  matter of timing; the model takes the first in the order the loads were started.
\<close>

fun Promise_all :: "promise list \<Rightarrow> promise" where
  "Promise_all [] = Resolved JUndefined"
| "Promise_all (Resolved v # ps) = Promise_all ps"
| "Promise_all (Rejected e # ps) = Rejected e"

text \<open>
  \<^verbatim>\<open>load\<close> with the loop over the sub-modules (lines 144-149). The model runs the load
  of each sub-module to its end, one sub-module after the other, and then the parent's
  callbacks. For a load that resolves this is the order the promises impose, up to the
  interleaving of siblings. When the load of a sub-module is rejected, \<^verbatim>\<open>Promise.all\<close> is
  rejected at once and the loads of the other sub-modules run on beside the parent's
  \<^verbatim>\<open>catch\<close> callback; no module's final state depends on that interleaving, since each
  load writes to its own module only.
\<close>

fun load :: "env \<Rightarrow> module \<Rightarrow> promise \<times> module \<times> event list"
  and load_subModules ::
    "env \<Rightarrow> (string \<times> module) list \<Rightarrow> promise list \<times> (string \<times> module) list \<times> event list" where
  "load env (Module s subs) =
     (if \<not> loaded s then
        (case load_subModules env subs of
           (loadPromises, subs', tr1) \<Rightarrow>
             (let s1 = s\<lparr>loadStatus := Loading\<rparr>
              in case Promise_all loadPromises of
                   Rejected e \<Rightarrow>
                     (case load_catch env e (Module s1 subs') of
                        (p, m', tr3) \<Rightarrow> (p, m', tr1 @ tr3))
                 | Resolved u \<Rightarrow>
                     (case load_then env s1 of
                        (Rejected e, s2, tr2) \<Rightarrow>
                          (case load_catch env e (Module s2 subs') of
                             (p, m', tr3) \<Rightarrow> (p, m', tr1 @ tr2 @ tr3))
                      | (Resolved v, s2, tr2) \<Rightarrow> (Resolved v, Module s2 subs', tr1 @ tr2))))
      else (Resolved JUndefined, Module s subs, []))"
| "load_subModules env [] = ([], [], [])"
| "load_subModules env ((key, view) # rest) =
     (case load env view of
        (p, view', tr) \<Rightarrow>
          (case load_subModules env rest of
             (ps, rest', trs) \<Rightarrow> (p # ps, (key, view') # rest', map (Child key) tr @ trs)))"

subsection \<open>Initial state of the element (lines 330-369)\<close>

text \<open>
  \<^verbatim>\<open>_handleElementInitialState\<close>: without an element it returns at once; a marker found
  on the element runs \<^verbatim>\<open>disable()\<close> or \<^verbatim>\<open>error(new Error())\<close>, whose promises are dropped
  and whose exceptions leave the method.
\<close>

definition handleElementInitialState ::
  "env \<Rightarrow> module \<Rightarrow> unit completion \<times> module \<times> event list" where
  "handleElementInitialState env m =
     (case el (st m) of
        None \<Rightarrow> (Return (), m, [])
      | Some x \<Rightarrow>
         (case (if classList_contains (disabledClass (options (st m))) x
                then disable env (Module ((st m)\<lparr>origDisabled := True\<rparr>) (subModules m))
                else (Return (Resolved JUndefined), m, [])) of
            (Throw t, m1, tr1) \<Rightarrow> (Throw t, m1, tr1)
          | (Return p1, m1, tr1) \<Rightarrow>
             (case el (st m1) of
                None \<Rightarrow> (Return (), m1, tr1)
              | Some y \<Rightarrow>
                 if classList_contains (errorClass (options (st m1))) y
                 then (case error env new_Error
                              (Module ((st m1)\<lparr>origError := True\<rparr>) (subModules m1)) of
                         (Throw t, m2, tr2) \<Rightarrow> (Throw t, m2, tr1 @ tr2)
                       | (Return p2, m2, tr2) \<Rightarrow> (Return (), m2, tr1 @ tr2))
                 else (Return (), m1, tr1))))"

definition resetElementInitialState :: "mstate \<Rightarrow> mstate" where
  "resetElementInitialState s =
     (case el s of
        None \<Rightarrow> s
      | Some x \<Rightarrow>
         (let x1 = (if origDisabled s then classList_add (disabledClass (options s)) x
                    else classList_remove (disabledClass (options s)) x);
              x2 = (if \<not> origError s then classList_remove (errorClass (options s)) x1
                    else classList_add (errorClass (options s)) x1)
          in s\<lparr>el := Some x2\<rparr>))"

subsection \<open>The constructor (lines 86-133)\<close>

text \<open>
  The constructor with the options already merged (\<open>constructor_options\<close> above). The
  fields it assigns after \<^verbatim>\<open>_handleElementInitialState\<close> are written after it here too;
  before that they are \<^verbatim>\<open>undefined\<close> and not read. The result is the new module, or the
  exception of a callback, with the events of the construction.
\<close>

definition constructor ::
  "env \<Rightarrow> element option \<Rightarrow> module_options \<Rightarrow> module completion \<times> event list" where
  "constructor env e opts =
     (let tr0 = (if e = None then [ConsoleError] else []);
          this = Module \<lparr>el = e, options = opts, active = False, loaded = False,
                         disabled = None, errored = None, loadStatus = NotLoaded,
                         elChildren = [], origDisabled = False, origError = False\<rparr> []
      in case handleElementInitialState env this of
           (Throw t, m, tr) \<Rightarrow> (Throw t, tr0 @ tr)
         | (Return u, m, tr) \<Rightarrow>
            (Return (Module ((st m)\<lparr>active := False, loaded := False, elChildren := [],
                                     loadStatus := NotLoaded\<rparr>) []),
             tr0 @ tr))"

subsection \<open>getClosestAncestorElementByClassName (lines 384-393)\<close>

text \<open>
  The callback records the node in \<^verbatim>\<open>result\<close> and returns \<^verbatim>\<open>false\<close> when the node carries
  the class, and returns \<^verbatim>\<open>undefined\<close> otherwise.
\<close>

definition closest_callback ::
  "string \<Rightarrow> element \<Rightarrow> element option \<Rightarrow> jsval \<times> element option" where
  "closest_callback className parent result =
     (if classList_contains className parent then (JBool False, Some parent)
      else (JUndefined, result))"

text \<open>
  The start is \<^verbatim>\<open>startTarget || this.el.parentNode || this.el\<close>: with no start target
  and no element, reading \<^verbatim>\<open>this.el.parentNode\<close> throws.
\<close>

definition getClosestAncestorElementByClassName ::
  "string \<Rightarrow> element option \<Rightarrow> module \<Rightarrow> element option completion" where
  "getClosestAncestorElementByClassName className startTarget m =
     (case (case startTarget of
              Some t \<Rightarrow> Return (Some t)
            | None \<Rightarrow>
               (case el (st m) of
                  None \<Rightarrow> Throw TypeError
                | Some x \<Rightarrow>
                   (case parentNode x of Some p \<Rightarrow> Return (Some p) | None \<Rightarrow> Return (Some x)))) of
        Throw t \<Rightarrow> Throw t
      | Return start \<Rightarrow> Return (traverseEachParent (closest_callback className) start None))"

subsection \<open>destroy (lines 398-423)\<close>

text \<open>The \<^verbatim>\<open>forEach\<close> of lines 417-421 over \<^verbatim>\<open>_elChildren\<close>.\<close>

fun remove_elChildren :: "node_id list \<Rightarrow> mstate \<Rightarrow> unit completion \<times> mstate" where
  "remove_elChildren [] s = (Return (), s)"
| "remove_elChildren (n # ns) s =
     (case el s of
        None \<Rightarrow> (Throw TypeError, s)
      | Some x \<Rightarrow>
         remove_elChildren ns (if contains x n then s\<lparr>el := Some (removeChild n x)\<rparr> else s))"

text \<open>
  \<^verbatim>\<open>destroy\<close> with its loop over the sub-modules (a sub-module is an object, so the test
  \<^verbatim>\<open>subModules[key]\<close> of line 402 holds): an exception of a sub-module's \<^verbatim>\<open>destroy\<close>
  leaves the loop and the method. \<^verbatim>\<open>this.el.classList\<close> (line 412) is read
  with no test of \<^verbatim>\<open>this.el\<close>, after the flags are reset. No statement of the method
  assigns \<^verbatim>\<open>this.disabled\<close>.
\<close>

fun destroy :: "module \<Rightarrow> unit completion \<times> module"
  and destroy_subModules ::
    "(string \<times> module) list \<Rightarrow> unit completion \<times> (string \<times> module) list" where
  "destroy (Module s subs) =
     (case destroy_subModules subs of
        (Throw t, subs') \<Rightarrow> (Throw t, Module s subs')
      | (Return u, subs') \<Rightarrow>
         (let s1 = s\<lparr>active := False, loaded := False, errored := Some False,
                     loadStatus := NotLoaded\<rparr>
          in case el s1 of
               None \<Rightarrow> (Throw TypeError, Module s1 [])
             | Some x \<Rightarrow>
                (let x1 = classList_remove (loadedClass (options s1)) x;
                     x2 = classList_remove (activeClass (options s1)) x1;
                     s2 = resetElementInitialState (s1\<lparr>el := Some x2\<rparr>)
                 in case remove_elChildren (elChildren s2) s2 of
                      (Throw t, s3) \<Rightarrow> (Throw t, Module s3 [])
                    | (Return v, s3) \<Rightarrow> (Return (), Module (s3\<lparr>elChildren := []\<rparr>) []))))"
| "destroy_subModules [] = (Return (), [])"
| "destroy_subModules ((key, sub) # rest) =
     (case destroy sub of
        (Throw t, sub') \<Rightarrow> (Throw t, (key, sub') # rest)
      | (Return u, sub') \<Rightarrow>
         (case destroy_subModules rest of
            (c, rest') \<Rightarrow> (c, (key, sub') # rest')))"

section \<open>Descriptions the properties are stated with, and sample inputs\<close>

text \<open>The chain of a node and its ancestors, nearest first.\<close>

fun ancestors :: "element \<Rightarrow> element list" where
  "ancestors (Element is_str cl ch par) =
     Element is_str cl ch par # (case par of None \<Rightarrow> [] | Some p \<Rightarrow> ancestors p)"

text \<open>
  A store with one caller-made options object at reference 0: a falsy \<^verbatim>\<open>data\<close>, a
  template path and a key outside the defaults.
\<close>

definition ex_store :: store where
  "ex_store =
     \<lparr>objs = (\<lambda>r. if r = 0
                   then [''data'' \<mapsto> JNum 0, ''template'' \<mapsto> JStr ''main.html'',
                         ''tag'' \<mapsto> JBool False]
                   else Map.empty),
      fresh = 1\<rparr>"


text \<open>Events of sub-modules, and promises that resolved.\<close>

fun is_Child :: "event \<Rightarrow> bool" where
  "is_Child (Child key ev) = True"
| "is_Child ev = False"

fun is_Resolved :: "promise \<Rightarrow> bool" where
  "is_Resolved (Resolved v) = True"
| "is_Resolved (Rejected e) = False"

text \<open>The invariant of the specification: nothing is mounted exactly when the module is not loaded.\<close>

definition mounted_iff_not_loaded :: "module \<Rightarrow> bool" where
  "mounted_iff_not_loaded m = ((elChildren (st m) = []) = (\<not> loaded (st m)))"



text \<open>
  Collaborators that all succeed, the default options, and an element \<^verbatim>\<open>div.widget\<close>
  inside \<^verbatim>\<open>div.page\<close> inside the document.
\<close>

definition ex_env :: env where
  "ex_env =
     \<lparr>ResourceManager_loadCss = (\<lambda>cssUrl. Resolved JUndefined),
      ResourceManager_fetchData = (\<lambda>url opts. Resolved (JObj 1)),
      ResourceManager_loadTemplate = (\<lambda>t. Inr [10, 11]),
      document_importNode = (\<lambda>content. map (\<lambda>n. n + 100) content),
      waitForElementTransition = (\<lambda>x. Resolved JUndefined)\<rparr>"

definition ex_options :: module_options where
  "ex_options =
     \<lparr>loadedClass = ''module-loaded'', activeClass = ''module-active'',
      disabledClass = ''module-disabled'', errorClass = ''module-error'',
      styles = JArr [], template = NoTemplate, data = JNull, requestOptions = JNull,
      onLoad = None, onShow = None, onHide = None, onEnable = None, onDisable = None,
      onError = (\<lambda>e. None)\<rparr>"

definition ex_document :: element where
  "ex_document = Element False [] [] None"

definition ex_page :: element where
  "ex_page = Element True [''page''] [] (Some ex_document)"

definition ex_el :: element where
  "ex_el = Element True [''widget''] [] (Some ex_page)"

text \<open>
  The module \<^verbatim>\<open>new Module(el, opts)\<close> makes from an element without markers, and three
  instances: no template, an element (node 7) as template, a template path.
\<close>

definition new_module :: "element option \<Rightarrow> module_options \<Rightarrow> module" where
  "new_module e opts =
     Module \<lparr>el = e, options = opts, active = False, loaded = False, disabled = None,
             errored = None, loadStatus = NotLoaded, elChildren = [], origDisabled = False,
             origError = False\<rparr> []"

definition ex_plain :: module where
  "ex_plain = new_module (Some ex_el) ex_options"

definition ex_module :: module where
  "ex_module = new_module (Some ex_el) (ex_options\<lparr>template := HTMLElement 7\<rparr>)"

definition ex_child_a :: module where
  "ex_child_a = new_module (Some ex_el) (ex_options\<lparr>template := TemplateUrl ''a.html''\<rparr>)"

text \<open>A parent that was given two sub-modules, \<^verbatim>\<open>a\<close> and \<^verbatim>\<open>b\<close>.\<close>

definition ex_parent :: module where
  "ex_parent = Module (st ex_module) [(''a'', ex_child_a), (''b'', ex_plain)]"

text \<open>The module \<open>ex_module\<close> after its load, with node 7 mounted.\<close>

definition ex_loaded :: module where
  "ex_loaded = fst (snd (load ex_env ex_module))"

text \<open>
  Collaborators that fail: the stylesheet \<^verbatim>\<open>bad.css\<close> and the templates \<^verbatim>\<open>a.html\<close> and
  \<^verbatim>\<open>b.html\<close> are rejected, each with an error of its own.
\<close>

definition ex_failing_env :: env where
  "ex_failing_env =
     \<lparr>ResourceManager_loadCss =
        (\<lambda>cssUrl. if cssUrl = JStr ''bad.css'' then Rejected (JError ''css'')
                  else Resolved JUndefined),
      ResourceManager_fetchData = (\<lambda>url opts. Resolved (JObj 1)),
      ResourceManager_loadTemplate =
        (\<lambda>t. if t = ''a.html'' then Inl (JError ''a'')
             else if t = ''b.html'' then Inl (JError ''b'') else Inr [10, 11]),
      document_importNode = (\<lambda>content. map (\<lambda>n. n + 100) content),
      waitForElementTransition = (\<lambda>x. Resolved JUndefined)\<rparr>"

definition ex_child_b :: module where
  "ex_child_b = new_module (Some ex_el) (ex_options\<lparr>template := TemplateUrl ''b.html''\<rparr>)"

definition ex_bad_css :: module where
  "ex_bad_css = new_module (Some ex_el) (ex_options\<lparr>styles := JStr ''bad.css''\<rparr>)"

text \<open>The same module with an \<^verbatim>\<open>onError\<close> callback that throws.\<close>

definition ex_hook_throws :: module where
  "ex_hook_throws =
     new_module (Some ex_el)
       (ex_options\<lparr>styles := JStr ''bad.css'', onError := (\<lambda>e. Some (JError ''hook''))\<rparr>)"

text \<open>A parent whose sub-module \<^verbatim>\<open>a\<close> fails, and one whose two sub-modules both fail.\<close>

definition ex_mixed_parent :: module where
  "ex_mixed_parent = Module (st ex_plain) [(''a'', ex_child_a), (''b'', ex_plain)]"

definition ex_failing_parent :: module where
  "ex_failing_parent = Module (st ex_plain) [(''a'', ex_child_a), (''b'', ex_child_b)]"

text \<open>A module constructed without an element.\<close>

definition ex_noel :: module where
  "ex_noel = new_module None ex_options"

text \<open>
  An element that carries the disabled marker, and the module the constructor makes
  from it.
\<close>

definition ex_disabled_el :: element where
  "ex_disabled_el = Element True [''widget'', ''module-disabled''] [] (Some ex_page)"

definition ex_disabled :: module where
  "ex_disabled =
     Module \<lparr>el = Some ex_disabled_el, options = ex_options, active = False, loaded = False,
             disabled = Some True, errored = None, loadStatus = NotLoaded, elChildren = [],
             origDisabled = True, origError = False\<rparr> []"

text \<open>A chain that passes a node without a string \<^verbatim>\<open>className\<close> below a node with class \<^verbatim>\<open>top\<close>.\<close>

definition ex_inner :: element where
  "ex_inner =
     Element True [''inner''] [] (Some (Element False [] [] (Some (Element True [''top''] [] None))))"

section \<open>Properties\<close>

subsection \<open>The options of the constructor\<close>

lemma add_defaults_other:
  "name \<notin> fst ` set ds \<Longrightarrow> add_defaults ds ob name = ob name"
  by (induction ds ob rule: add_defaults.induct) auto

lemma add_defaults_key:
  "distinct (map fst ds) \<Longrightarrow> (name, d) \<in> set ds \<Longrightarrow>
   add_defaults ds ob name =
     (if truthy (get_prop ob name) then ob name else Some d)"
proof (induction ds ob rule: add_defaults.induct)
  case (1 ob)
  then show ?case by simp
next
  case (2 k v rest ob)
  show ?case
  proof (cases "name = k")
    case True
    with 2 have "d = v" by (auto simp: rev_image_eqI)
    from 2 True have "name \<notin> fst ` set rest" by auto
    then show ?thesis
      using True \<open>d = v\<close> by (simp add: add_defaults_other get_prop_def)
  next
    case False
    with 2 show ?thesis by (auto simp: get_prop_def)
  qed
qed

lemma distinct_defaultOptions: "distinct (map fst defaultOptions)"
  by (simp add: defaultOptions_def)

text \<open>
  Claim C8. For every key of the default set and every options argument (an object of
  the caller's, or none), the object the constructor keeps as \<^verbatim>\<open>this.options\<close> holds the
  default under that key when the caller's value is falsy (absent counts as
  \<^verbatim>\<open>undefined\<close>), and the caller's value otherwise.
\<close>

theorem constructor_options_effective:
  assumes "constructor_options h arg = (h', r)"
    and "(name, d) \<in> set defaultOptions"
  shows "get_prop (objs h' r) name =
           (let supplied = (case arg of None \<Rightarrow> JUndefined | Some a \<Rightarrow> get_prop (objs h a) name)
            in if truthy supplied then supplied else d)"
proof (cases arg)
  case None
  with assms(1) have "objs h' r = add_defaults defaultOptions Map.empty"
    by (auto simp: constructor_options_def)
  moreover have "add_defaults defaultOptions Map.empty name = Some d"
    using add_defaults_key [OF distinct_defaultOptions assms(2), of Map.empty]
    by (simp add: get_prop_def)
  ultimately show ?thesis using None by (simp add: get_prop_def)
next
  case (Some a)
  with assms(1) have "objs h' r = add_defaults defaultOptions (objs h a)"
    by (auto simp: constructor_options_def)
  then show ?thesis
    using Some add_defaults_key [OF distinct_defaultOptions assms(2), of "objs h a"]
    by (auto simp: get_prop_def Let_def split: option.splits)
qed

text \<open>
  On the sample object, the falsy \<^verbatim>\<open>data: 0\<close> becomes the default \<^verbatim>\<open>null\<close> and the
  template path is kept.
\<close>

theorem constructor_options_effective_witness:
  "get_prop (objs (fst (constructor_options ex_store (Some 0)))
              (snd (constructor_options ex_store (Some 0)))) ''data'' = JNull \<and>
   get_prop (objs (fst (constructor_options ex_store (Some 0)))
              (snd (constructor_options ex_store (Some 0)))) ''template'' = JStr ''main.html''"
proof -
  have run: "constructor_options ex_store (Some 0) =
      (fst (constructor_options ex_store (Some 0)), snd (constructor_options ex_store (Some 0)))"
    by simp
  have k1: "(''data'', JNull) \<in> set defaultOptions"
    and k2: "(''template'', JStr '''') \<in> set defaultOptions"
    by (simp_all add: defaultOptions_def)
  show ?thesis
    using constructor_options_effective [OF run k1] constructor_options_effective [OF run k2]
    by (simp add: ex_store_def get_prop_def)
qed

text \<open>
  Claim C9. When the caller passes an options object, the constructor allocates
  nothing and keeps the caller's reference; it writes into that very object: every
  default key whose value there is falsy now holds the default, every other property of
  the object is as it was, and no other object of the store changes.
\<close>

theorem constructor_options_in_place:
  assumes "constructor_options h (Some a) = (h', r)"
  shows "r = a \<and> fresh h' = fresh h \<and> (\<forall>b. b \<noteq> a \<longrightarrow> objs h' b = objs h b) \<and>
         (\<forall>(name, d) \<in> set defaultOptions.
            objs h' a name =
              (if truthy (get_prop (objs h a) name) then objs h a name else Some d)) \<and>
         (\<forall>name. name \<notin> fst ` set defaultOptions \<longrightarrow> objs h' a name = objs h a name)"
proof -
  from assms have r: "r = a"
    and h': "h' = h\<lparr>objs := (objs h)(a := add_defaults defaultOptions (objs h a))\<rparr>"
    by (auto simp: constructor_options_def)
  have "\<forall>(name, d) \<in> set defaultOptions.
          objs h' a name =
            (if truthy (get_prop (objs h a) name) then objs h a name else Some d)"
    using add_defaults_key [OF distinct_defaultOptions] by (auto simp: h')
  moreover have "\<forall>name. name \<notin> fst ` set defaultOptions \<longrightarrow> objs h' a name = objs h a name"
    by (simp add: h' add_defaults_other)
  ultimately show ?thesis using r by (simp add: h')
qed

text \<open>
  The sample object itself, at its own reference, now holds \<^verbatim>\<open>data: null\<close> and the
  default class name, and still holds its own \<^verbatim>\<open>tag\<close>.
\<close>

theorem constructor_options_in_place_witness:
  "snd (constructor_options ex_store (Some 0)) = 0 \<and>
   fresh (fst (constructor_options ex_store (Some 0))) = 1 \<and>
   objs (fst (constructor_options ex_store (Some 0))) 0 ''data'' = Some JNull \<and>
   objs (fst (constructor_options ex_store (Some 0))) 0 ''loadedClass'' = Some (JStr ''module-loaded'') \<and>
   objs (fst (constructor_options ex_store (Some 0))) 0 ''tag'' = Some (JBool False)"
proof -
  have run: "constructor_options ex_store (Some 0) =
      (fst (constructor_options ex_store (Some 0)), snd (constructor_options ex_store (Some 0)))"
    by simp
  have k1: "(''data'', JNull) \<in> set defaultOptions"
    and k2: "(''loadedClass'', JStr ''module-loaded'') \<in> set defaultOptions"
    and k3: "''tag'' \<notin> fst ` set defaultOptions"
    by (simp_all add: defaultOptions_def)
  from constructor_options_in_place [OF run]
  have r: "snd (constructor_options ex_store (Some 0)) = 0"
    and f: "fresh (fst (constructor_options ex_store (Some 0))) = fresh ex_store"
    and keys: "\<forall>(name, d) \<in> set defaultOptions.
        objs (fst (constructor_options ex_store (Some 0))) 0 name =
          (if truthy (get_prop (objs ex_store 0) name) then objs ex_store 0 name else Some d)"
    and others: "\<forall>name. name \<notin> fst ` set defaultOptions \<longrightarrow>
        objs (fst (constructor_options ex_store (Some 0))) 0 name = objs ex_store 0 name"
    by blast+
  from keys k1 k2 others k3 r f show ?thesis
    by (auto simp: ex_store_def get_prop_def)
qed

subsection \<open>Ancestor traversal\<close>

lemma traverse_closest:
  "traverseEachParent (closest_callback c) start res =
     (case find (classList_contains c)
             (takeWhile className_is_string (case start of None \<Rightarrow> [] | Some x \<Rightarrow> ancestors x)) of
        None \<Rightarrow> res
      | Some y \<Rightarrow> Some y)"
proof (induction "closest_callback c" start res rule: traverseEachParent.induct)
  case (1 s)
  then show ?case by simp
next
  case (2 is_str cl ch par s)
  show ?case
  proof (cases is_str)
    case False
    then show ?thesis by simp
  next
    case True
    show ?thesis
    proof (cases "classList_contains c (Element is_str cl ch par)")
      case hit: True
      then show ?thesis using True by (simp add: closest_callback_def)
    next
      case miss: False
      have "traverseEachParent (closest_callback c) par s =
        (case find (classList_contains c)
             (takeWhile className_is_string (case par of None \<Rightarrow> [] | Some x \<Rightarrow> ancestors x)) of
           None \<Rightarrow> s | Some y \<Rightarrow> Some y)"
        using 2 True miss
        by (simp add: closest_callback_def)
      then show ?thesis using True miss
        by (simp add: closest_callback_def)
    qed
  qed
qed

text \<open>
  Claim C7. Started at a node \<open>x\<close>, \<^verbatim>\<open>getClosestAncestorElementByClassName\<close> returns
  the nearest node that carries the class among \<open>x\<close> and its ancestors up to, and
  without, the first node whose \<^verbatim>\<open>className\<close> is not a string; it returns null
  (\<open>None\<close>) when no node of that stretch carries the class. It never throws, with or
  without an element of the module's own.
\<close>

theorem getClosestAncestorElementByClassName_nearest:
  "getClosestAncestorElementByClassName className (Some x) m =
     Return (find (classList_contains className)
               (takeWhile className_is_string (ancestors x)))"
  by (simp add: getClosestAncestorElementByClassName_def traverse_closest split: option.splits)

subsection \<open>The lifecycle\<close>

lemma mount_loop_eq: "mount_loop nodes (children, frag) = (children @ nodes, frag @ nodes)"
  by (induction nodes arbitrary: children frag) auto


lemma load_nodes_Return:
  assumes "load_nodes r s = (Return u, s', tr)"
  shows "loaded s' \<and> tr = [AppendChild (case r of None \<Rightarrow> [] | Some ns \<Rightarrow> ns), OnLoad] \<and>
         elChildren s' = elChildren s @ (case r of None \<Rightarrow> [] | Some ns \<Rightarrow> ns)"
  using assms
  by (auto simp: load_nodes_def mount_loop_eq Let_def split: option.splits)

lemma load_then_Resolved:
  assumes "load_then env s = (Resolved v, s', tr)"
  shows "loaded s' \<and>
         (\<exists>d nodes. tr = [GetStyles (styles (options s)),
                          FetchData (data (options s)) (requestOptions (options s)),
                          GetTemplate d, AppendChild nodes, OnLoad] \<and>
                     fetchData env (data (options s)) (requestOptions (options s)) = Resolved d \<and>
                     elChildren s' = elChildren s @ nodes)"
  using assms
  by (auto simp: load_then_def Let_def
      split: promise.splits sum.splits prod.splits completion.splits dest!: load_nodes_Return)

lemma load_loaded:
  "loaded (st m) \<Longrightarrow> load env m = (Resolved JUndefined, m, [])"
  by (cases m) simp

lemma load_catch_Rejected:
  "load_catch env e m = (p, m', tr) \<Longrightarrow> \<exists>x. p = Rejected x"
  by (cases m) (auto simp: load_catch_def Let_def split: option.splits)

lemma load_Resolved_loaded:
  assumes "load env m = (Resolved v, m', tr)"
  shows "loaded (st m')"
proof (cases m)
  case (Module s subs)
  show ?thesis
  proof (cases "loaded s")
    case True
    with assms Module show ?thesis by auto
  next
    case False
    with assms Module show ?thesis
      by (auto simp: Let_def split: prod.splits promise.splits
          dest: load_then_Resolved load_catch_Rejected)
  qed
qed

text \<open>
  Claim C5. On a loaded module \<^verbatim>\<open>load\<close> resolves at once, with no event (no call of
  \<^verbatim>\<open>getStyles\<close>, \<^verbatim>\<open>fetchData\<close>, \<^verbatim>\<open>getTemplate\<close>, no load of a sub-module) and the module
  unchanged. A \<^verbatim>\<open>load\<close> that resolves leaves the module loaded, so a second call after it
  is such a call: all events of the two calls are those of the first.
\<close>

theorem load_idempotent:
  "(loaded (st m) \<longrightarrow> load env m = (Resolved JUndefined, m, [])) \<and>
   (load env m = (Resolved v, m', tr) \<longrightarrow>
      loaded (st m') \<and> load env m' = (Resolved JUndefined, m', []))"
  using load_loaded load_Resolved_loaded by blast

lemma load_subModules_events:
  "load_subModules env subs = (ps, subs', tr) \<Longrightarrow> \<forall>ev \<in> set tr. is_Child ev"
  by (induction subs arbitrary: ps subs' tr) (auto split: prod.splits)

lemma load_subModules_promises:
  "load_subModules env subs = (ps, subs', tr) \<Longrightarrow>
     ps = map (\<lambda>(key, view). fst (load env view)) subs"
  by (induction subs arbitrary: ps subs' tr) (auto split: prod.splits)

lemma Promise_all_Resolved:
  "Promise_all ps = Resolved u \<Longrightarrow> \<forall>p \<in> set ps. is_Resolved p"
  by (induction ps rule: Promise_all.induct) auto

text \<open>
  Claim C6. The events of a \<^verbatim>\<open>load\<close> that runs and resolves are: first the events of the
  loads of all sub-modules, every one of which has resolved; then, of the module itself
  and in this order, \<^verbatim>\<open>getStyles\<close>, \<^verbatim>\<open>fetchData\<close>, \<^verbatim>\<open>getTemplate\<close>, the \<^verbatim>\<open>appendChild\<close> that
  mounts the nodes, and \<^verbatim>\<open>onLoad\<close>; the mounted nodes are appended to \<^verbatim>\<open>_elChildren\<close>.
\<close>

theorem load_order:
  assumes "\<not> loaded (st m)" and "load env m = (Resolved v, m', tr)"
  shows "\<exists>ps subs' ctr d nodes.
           load_subModules env (subModules m) = (ps, subs', ctr) \<and>
           length ps = length (subModules m) \<and>
           (\<forall>p \<in> set ps. is_Resolved p) \<and>
           (\<forall>ev \<in> set ctr. is_Child ev) \<and>
           tr = ctr @ [GetStyles (styles (options (st m))),
                       FetchData (data (options (st m))) (requestOptions (options (st m))),
                       GetTemplate d, AppendChild nodes, OnLoad] \<and>
           elChildren (st m') = elChildren (st m) @ nodes"
proof (cases m)
  case (Module s subs)
  obtain ps subs' ctr where subs: "load_subModules env subs = (ps, subs', ctr)"
    by (cases "load_subModules env subs") auto
  from assms Module subs obtain u where all: "Promise_all ps = Resolved u"
    by (cases "Promise_all ps") (auto simp: Let_def split: prod.splits dest: load_catch_Rejected)
  obtain p2 s2 tr2 where th: "load_then env (s\<lparr>loadStatus := Loading\<rparr>) = (p2, s2, tr2)"
    by (cases "load_then env (s\<lparr>loadStatus := Loading\<rparr>)") auto
  from assms Module subs all th have p2: "p2 = Resolved v" and m': "m' = Module s2 subs'"
    and tr: "tr = ctr @ tr2"
    by (cases p2; auto simp: Let_def split: prod.splits dest: load_catch_Rejected)+
  from load_then_Resolved [OF th [unfolded p2]] obtain d nodes where
    tr2: "tr2 = [GetStyles (styles (options s)), FetchData (data (options s)) (requestOptions (options s)),
                 GetTemplate d, AppendChild nodes, OnLoad]"
    and ch: "elChildren s2 = elChildren s @ nodes"
    by auto
  have "length ps = length subs"
    using load_subModules_promises [OF subs] by simp
  with subs all tr tr2 ch m' Module load_subModules_events [OF subs] Promise_all_Resolved [OF all]
  show ?thesis by simp
qed

subsection \<open>Evaluating the sample inputs\<close>

lemmas ex_defs = ex_env_def ex_options_def ex_document_def ex_page_def ex_el_def new_module_def
  ex_plain_def ex_module_def ex_child_a_def ex_child_b_def ex_parent_def ex_loaded_def
  ex_failing_env_def ex_bad_css_def ex_hook_throws_def ex_mixed_parent_def
  ex_failing_parent_def ex_noel_def ex_disabled_el_def ex_disabled_def ex_inner_def

lemmas run_defs = Let_def TypeError_def new_Error_def classList_add_def classList_remove_def
  classList_contains_def appendChild_def contains_def removeChild_def waitForTransition_def
  fetchData_def getStyles_def getTemplate_def load_nodes_def load_then_def load_catch_def
  handleElementInitialState_def resetElementInitialState_def constructor_def
  getClosestAncestorElementByClassName_def closest_callback_def

text \<open>The sample modules are what the constructor returns.\<close>

lemma constructor_ex_plain: "constructor ex_env (Some ex_el) ex_options = (Return ex_plain, [])"
  by (simp add: ex_defs run_defs)

lemma constructor_ex_module:
  "constructor ex_env (Some ex_el) (ex_options\<lparr>template := HTMLElement 7\<rparr>) = (Return ex_module, [])"
  by (simp add: ex_defs run_defs)

lemma load_ex_module:
  "load ex_env ex_module = (Resolved JUndefined, ex_loaded, 
     [GetStyles (JArr []), FetchData JNull JNull, GetTemplate JNull, AppendChild [7], OnLoad])"
  by (simp add: ex_defs run_defs)

lemma ex_loaded_fields:
  "loaded (st ex_loaded) \<and> elChildren (st ex_loaded) = [7] \<and> loadStatus (st ex_loaded) = Loaded \<and>
   el (st ex_loaded) =
     Some (Element True [''widget'', ''module-loaded''] [7] (Some ex_page))"
  by (simp add: ex_defs run_defs)

subsection \<open>Failure of a load\<close>






lemma Promise_all_cases:
  "(Promise_all ps = Resolved JUndefined \<and> (\<forall>p \<in> set ps. is_Resolved p)) \<or>
   (\<exists>e. Promise_all ps = Rejected e \<and> Rejected e \<in> set ps)"
  by (induction ps rule: Promise_all.induct) auto







lemma remove_elChildren_fields:
  "remove_elChildren ns s = (c, s') \<Longrightarrow>
     loaded s' = loaded s \<and> active s' = active s \<and> errored s' = errored s \<and>
     disabled s' = disabled s \<and> loadStatus s' = loadStatus s \<and>
     elChildren s' = elChildren s \<and> options s' = options s"
proof (induction ns arbitrary: s)
  case Nil
  then show ?case by simp
next
  case (Cons n ns)
  show ?case
  proof (cases "el s")
    case None
    with Cons.prems show ?thesis by simp
  next
    case (Some x)
    with Cons.prems have
      "remove_elChildren ns (if contains x n then s\<lparr>el := Some (removeChild n x)\<rparr> else s) = (c, s')"
      by simp
    from Cons.IH [OF this] show ?thesis by (simp split: if_splits)
  qed
qed

lemma resetElementInitialState_fields:
  "loaded (resetElementInitialState s) = loaded s \<and>
   active (resetElementInitialState s) = active s \<and>
   errored (resetElementInitialState s) = errored s \<and>
   disabled (resetElementInitialState s) = disabled s \<and>
   loadStatus (resetElementInitialState s) = loadStatus s \<and>
   elChildren (resetElementInitialState s) = elChildren s"
  by (simp add: resetElementInitialState_def Let_def split: option.splits)

lemma destroy_Return:
  assumes "destroy m = (Return u, m')"
  shows "elChildren (st m') = [] \<and> \<not> loaded (st m') \<and> \<not> active (st m') \<and>
         errored (st m') = Some False \<and> loadStatus (st m') = NotLoaded \<and>
         subModules m' = [] \<and> disabled (st m') = disabled (st m)"
proof (cases m)
  case (Module s subs)
  with assms show ?thesis
    by (auto simp: Let_def resetElementInitialState_fields
        split: prod.splits completion.splits option.splits
        dest!: remove_elChildren_fields)
qed



subsection \<open>The mounted nodes and the loaded flag\<close>

text \<open>
  Claim C1 as stated fails, in both directions. A load with no template resolves with
  the module loaded and nothing mounted. After the load of \<open>ex_module\<close> the predicate
  holds (node 7 is mounted, the module is loaded), and \<^verbatim>\<open>error()\<close> then clears \<^verbatim>\<open>loaded\<close>
  and keeps the mounted node.
\<close>

theorem mounted_iff_not_loaded_counterexample:
  "fst (load ex_env ex_plain) = Resolved JUndefined \<and>
   \<not> mounted_iff_not_loaded (fst (snd (load ex_env ex_plain))) \<and>
   fst (load ex_env ex_module) = Resolved JUndefined \<and>
   mounted_iff_not_loaded (fst (snd (load ex_env ex_module))) \<and>
   fst (error ex_env JUndefined (fst (snd (load ex_env ex_module)))) =
     Return (Resolved new_Error) \<and>
   \<not> mounted_iff_not_loaded
       (fst (snd (error ex_env JUndefined (fst (snd (load ex_env ex_module))))))"
  by (simp add: ex_defs run_defs mounted_iff_not_loaded_def)

text \<open>
  Claim C1, amended. The predicate holds of the module the constructor returns and of
  the module a \<^verbatim>\<open>destroy\<close> that returns leaves behind, and \<^verbatim>\<open>show\<close>, \<^verbatim>\<open>hide\<close>, \<^verbatim>\<open>enable\<close> and
  \<^verbatim>\<open>disable\<close> preserve it. Nothing is said of \<^verbatim>\<open>load\<close> and \<^verbatim>\<open>error\<close>.
\<close>

theorem mounted_iff_not_loaded_preserved:
  "(constructor env e opts = (Return m0, tr) \<longrightarrow> mounted_iff_not_loaded m0) \<and>
   (destroy m = (Return u, m') \<longrightarrow> mounted_iff_not_loaded m') \<and>
   (mounted_iff_not_loaded m \<longrightarrow>
      mounted_iff_not_loaded (fst (snd (show_module env m))) \<and>
      mounted_iff_not_loaded (fst (snd (hide env m))) \<and>
      mounted_iff_not_loaded (fst (snd (enable env m))) \<and>
      mounted_iff_not_loaded (fst (snd (disable env m))))"
proof (intro conjI impI)
  assume "constructor env e opts = (Return m0, tr)"
  then show "mounted_iff_not_loaded m0"
    by (auto simp: constructor_def mounted_iff_not_loaded_def Let_def
        split: prod.splits completion.splits)
next
  assume "destroy m = (Return u, m')"
  from destroy_Return [OF this] show "mounted_iff_not_loaded m'"
    by (simp add: mounted_iff_not_loaded_def)
next
  assume "mounted_iff_not_loaded m"
  then show "mounted_iff_not_loaded (fst (snd (show_module env m)))"
    by (cases m) (simp add: mounted_iff_not_loaded_def Let_def split: option.splits)
next
  assume "mounted_iff_not_loaded m"
  then show "mounted_iff_not_loaded (fst (snd (hide env m)))"
    by (cases m) (simp add: mounted_iff_not_loaded_def Let_def split: option.splits)
next
  assume "mounted_iff_not_loaded m"
  then show "mounted_iff_not_loaded (fst (snd (enable env m)))"
    by (cases m) (simp add: mounted_iff_not_loaded_def Let_def split: option.splits)
next
  assume "mounted_iff_not_loaded m"
  then show "mounted_iff_not_loaded (fst (snd (disable env m)))"
    by (cases m) (simp add: mounted_iff_not_loaded_def Let_def split: option.splits)
qed

text \<open>
  On the samples: the new module \<open>ex_plain\<close>, the loaded module \<open>ex_loaded\<close>, its
  \<^verbatim>\<open>destroy\<close>, which returns, and its \<^verbatim>\<open>show\<close> and \<^verbatim>\<open>disable\<close>.
\<close>

theorem mounted_iff_not_loaded_preserved_witness:
  "mounted_iff_not_loaded ex_plain \<and>
   mounted_iff_not_loaded ex_loaded \<and>
   fst (destroy ex_loaded) = Return () \<and>
   mounted_iff_not_loaded (snd (destroy ex_loaded)) \<and>
   mounted_iff_not_loaded (fst (snd (show_module ex_env ex_loaded))) \<and>
   mounted_iff_not_loaded (fst (snd (disable ex_env ex_loaded)))"
proof -
  have inv: "mounted_iff_not_loaded ex_loaded"
    using ex_loaded_fields by (simp add: mounted_iff_not_loaded_def)
  have d: "fst (destroy ex_loaded) = Return ()"
    by (simp add: ex_defs run_defs)
  then have run: "destroy ex_loaded = (Return (), snd (destroy ex_loaded))"
    by (simp add: prod_eq_iff)
  from mounted_iff_not_loaded_preserved
         [where env = ex_env and e = "Some ex_el" and opts = ex_options and ?m0.0 = ex_plain
            and tr = "[]" and m = ex_loaded and u = "()" and m' = "snd (destroy ex_loaded)"]
       constructor_ex_plain run inv d
  show ?thesis by simp
qed

subsection \<open>destroy and the disabled flag\<close>

text \<open>
  Claim C2 (the code falls short of it). The element of \<open>ex_disabled\<close> carried the
  disabled marker at construction, so the constructor ran \<^verbatim>\<open>disable()\<close>. Its \<^verbatim>\<open>destroy\<close>
  returns, resets \<^verbatim>\<open>active\<close>, \<^verbatim>\<open>loaded\<close>, \<^verbatim>\<open>errored\<close> and \<^verbatim>\<open>loadStatus\<close> and leaves the
  marker on the element, but \<^verbatim>\<open>disabled\<close> is still true. On \<open>ex_plain\<close>, whose element had
  no marker, \<^verbatim>\<open>disable()\<close> and then \<^verbatim>\<open>destroy()\<close> leave the element as it was, without the
  marker, and \<^verbatim>\<open>disabled\<close> true.
\<close>

theorem destroy_keeps_disabled:
  "constructor ex_env (Some ex_disabled_el) ex_options =
     (Return ex_disabled, [OnDisable, WaitForTransition]) \<and>
   fst (destroy ex_disabled) = Return () \<and>
   disabled (st (snd (destroy ex_disabled))) = Some True \<and>
   active (st (snd (destroy ex_disabled))) = False \<and>
   loaded (st (snd (destroy ex_disabled))) = False \<and>
   errored (st (snd (destroy ex_disabled))) = Some False \<and>
   loadStatus (st (snd (destroy ex_disabled))) = NotLoaded \<and>
   el (st (snd (destroy ex_disabled))) = Some ex_disabled_el \<and>
   fst (disable ex_env ex_plain) = Return (Resolved JUndefined) \<and>
   fst (destroy (fst (snd (disable ex_env ex_plain)))) = Return () \<and>
   disabled (st (snd (destroy (fst (snd (disable ex_env ex_plain)))))) = Some True \<and>
   errored (st (snd (destroy (fst (snd (disable ex_env ex_plain)))))) = Some False \<and>
   el (st (snd (destroy (fst (snd (disable ex_env ex_plain)))))) = Some ex_el"
  by (simp add: ex_defs run_defs)

subsection \<open>A module without an element\<close>

lemma error_without_element: "el (st m) = None \<Longrightarrow> error env err m = (Throw TypeError, m, [])"
  by (cases m) (simp add: Let_def)

lemma destroy_without_element:
  "el s = None \<Longrightarrow> fst (destroy (Module s [])) = Throw TypeError"
  by (simp add: Let_def)

text \<open>
  Claim C3 (the code falls short of it). The constructor called without an element
  logs and returns the module \<open>ex_noel\<close>, and \<^verbatim>\<open>show\<close>, \<^verbatim>\<open>hide\<close>, \<^verbatim>\<open>enable\<close> and \<^verbatim>\<open>disable\<close> on
  it return; but \<^verbatim>\<open>error()\<close>, \<^verbatim>\<open>destroy()\<close> and \<^verbatim>\<open>getClosestAncestorElementByClassName\<close>
  with no start node throw a \<^verbatim>\<open>TypeError\<close>, and \<^verbatim>\<open>load()\<close> is rejected with one.
\<close>

theorem missing_element_throws:
  "constructor ex_env None ex_options = (Return ex_noel, [ConsoleError]) \<and>
   fst (show_module ex_env ex_noel) = Return (Resolved JUndefined) \<and>
   fst (hide ex_env ex_noel) = Return (Resolved JUndefined) \<and>
   fst (enable ex_env ex_noel) = Return (Resolved JUndefined) \<and>
   fst (disable ex_env ex_noel) = Return (Resolved JUndefined) \<and>
   fst (error ex_env JUndefined ex_noel) = Throw TypeError \<and>
   fst (destroy ex_noel) = Throw TypeError \<and>
   getClosestAncestorElementByClassName ''page'' None ex_noel = Throw TypeError \<and>
   fst (load ex_env ex_noel) = Rejected TypeError"
  by (simp add: ex_defs run_defs)

subsection \<open>The confirmed properties on the samples\<close>

text \<open>
  The nearest node with class \<^verbatim>\<open>page\<close> above \<^verbatim>\<open>div.widget\<close> is its parent; no node has
  class \<^verbatim>\<open>absent\<close>; the start node itself is found; and the class \<^verbatim>\<open>top\<close> beyond a node
  without a string \<^verbatim>\<open>className\<close> is not reached.
\<close>

theorem getClosestAncestorElementByClassName_nearest_witness:
  "getClosestAncestorElementByClassName ''page'' (Some ex_el) ex_noel = Return (Some ex_page) \<and>
   getClosestAncestorElementByClassName ''absent'' (Some ex_el) ex_noel = Return None \<and>
   getClosestAncestorElementByClassName ''widget'' (Some ex_el) ex_noel = Return (Some ex_el) \<and>
   getClosestAncestorElementByClassName ''top'' (Some ex_inner) ex_noel = Return None"
  using getClosestAncestorElementByClassName_nearest
      [where className = "''page''" and x = ex_el and m = ex_noel]
    getClosestAncestorElementByClassName_nearest
      [where className = "''absent''" and x = ex_el and m = ex_noel]
    getClosestAncestorElementByClassName_nearest
      [where className = "''widget''" and x = ex_el and m = ex_noel]
    getClosestAncestorElementByClassName_nearest
      [where className = "''top''" and x = ex_inner and m = ex_noel]
  by (simp add: ex_el_def ex_page_def ex_document_def ex_inner_def classList_contains_def)


text \<open>The load of \<open>ex_module\<close> resolves; a second load changes nothing and has no event.\<close>

theorem load_idempotent_witness:
  "fst (load ex_env ex_module) = Resolved JUndefined \<and>
   loaded (st ex_loaded) \<and>
   load ex_env ex_loaded = (Resolved JUndefined, ex_loaded, [])"
  using load_idempotent [where m = ex_module and env = ex_env and v = JUndefined
      and m' = ex_loaded
      and tr = "[GetStyles (JArr []), FetchData JNull JNull, GetTemplate JNull,
                 AppendChild [7], OnLoad]"]
    load_ex_module
  by simp

text \<open>
  The load of the parent with sub-modules \<^verbatim>\<open>a\<close> and \<^verbatim>\<open>b\<close>: ten events of the sub-modules,
  then the parent's five steps in order.
\<close>

theorem load_order_witness:
  "\<not> loaded (st ex_parent) \<and>
   fst (load ex_env ex_parent) = Resolved JUndefined \<and>
   (\<exists>ctr. length ctr = 10 \<and> list_all is_Child ctr \<and>
      snd (snd (load ex_env ex_parent)) =
        ctr @ [GetStyles (JArr []), FetchData JNull JNull, GetTemplate JNull,
               AppendChild [7], OnLoad])"
proof -
  have unloaded: "\<not> loaded (st ex_parent)"
    by (simp add: ex_defs)
  have res: "fst (load ex_env ex_parent) = Resolved JUndefined"
    by (simp add: ex_defs run_defs)
  then have run: "load ex_env ex_parent =
      (Resolved JUndefined, fst (snd (load ex_env ex_parent)), snd (snd (load ex_env ex_parent)))"
    by (simp add: prod_eq_iff)
  from load_order [OF unloaded run] obtain ps subs' ctr d nodes where
    subs: "load_subModules ex_env (subModules ex_parent) = (ps, subs', ctr)"
    and ch: "\<forall>ev \<in> set ctr. is_Child ev"
    and tr: "snd (snd (load ex_env ex_parent)) =
      ctr @ [GetStyles (styles (options (st ex_parent))),
             FetchData (data (options (st ex_parent))) (requestOptions (options (st ex_parent))),
             GetTemplate d, AppendChild nodes, OnLoad]"
    by blast
  have "snd (snd (load ex_env ex_parent)) =
      [Child ''a'' (GetStyles (JArr [])), Child ''a'' (FetchData JNull JNull),
       Child ''a'' (GetTemplate JNull), Child ''a'' (AppendChild [10, 11]), Child ''a'' OnLoad,
       Child ''b'' (GetStyles (JArr [])), Child ''b'' (FetchData JNull JNull),
       Child ''b'' (GetTemplate JNull), Child ''b'' (AppendChild []), Child ''b'' OnLoad] @
      [GetStyles (JArr []), FetchData JNull JNull, GetTemplate JNull, AppendChild [7], OnLoad]"
    by (simp add: ex_defs run_defs)
  with tr have "length ctr = 10" and "d = JNull" and "nodes = [7]"
    by (auto simp: ex_defs)
  with tr ch unloaded res show ?thesis
    by (auto simp: ex_defs list_all_iff intro!: exI [of _ ctr])
qed

end
